theory Spec2Isabelle
  imports Complex_Main "HOL-Library.Sublist"
begin

section \<open>Data model (src/lib/scryfall.ts, interfaces)\<close>

text \<open>
  The interfaces of the source become records. A field declared with \<open>?\<close> is an
  \<open>option\<close>; a required field has the declared type. A JavaScript string is a
  \<open>string\<close>; every character the code inspects (braces, slash, digits, the letters
  \<open>W U B R G P X\<close>) is ASCII, all other characters are only compared for equality.
  A \<open>number\<close> is a double; one that the service delivers in JSON is finite, so
  \<open>cmc\<close> is a \<open>rat\<close> (the value of the double), a count is an \<open>int\<close>, an HTTP status
  is a \<open>nat\<close>; the arithmetic on them is in the section on numbers below.
  \<open>Record<string, string>\<close> is an association list. The fields \<open>id\<close>, \<open>set\<close> and \<open>keywords\<close> are spelled
  \<open>id'\<close>, \<open>set'\<close> and \<open>keywords'\<close>, the names being taken in Isabelle.
\<close>

record ImageUris =
  small :: string
  normal :: string
  large :: string
  art_crop :: string

record CardFace =
  name :: string
  mana_cost :: string
  oracle_text :: string
  image_uris :: "ImageUris option"

record ScryfallSet =
  id' :: string
  code :: string
  name :: string
  set_type :: string
  released_at :: string
  card_count :: int
  icon_svg_uri :: string
  scryfall_uri :: string

record ScryfallCard =
  id' :: string
  name :: string
  mana_cost :: string
  cmc :: rat
  type_line :: string
  oracle_text :: string
  colors :: "string list"
  color_identity :: "string list"
  keywords' :: "string list option"
  rarity :: string
  set' :: string
  set_name :: string
  image_uris :: "ImageUris option"
  card_faces :: "CardFace list option"
  scryfall_uri :: string
  legalities :: "(string \<times> string) list"
  isCounterspell :: "bool option"

record 'a ScryfallListResponse =
  object :: string
  total_cards :: "int option"
  has_more :: bool
  next_page :: "string option"
  data :: "'a list"

section \<open>String primitives of the language\<close>

text \<open>\<open>s.slice(1, -1)\<close>: drops the first and the last character; the empty string
  for a string of fewer than three characters.\<close>

definition slice_1_m1 :: "string \<Rightarrow> string" where
  "slice_1_m1 s = butlast (tl s)"

text \<open>\<open>s.slice(0, -2)\<close>: drops the last two characters.\<close>

definition slice_0_m2 :: "string \<Rightarrow> string" where
  "slice_0_m2 s = take (length s - 2) s"

text \<open>\<open>s.includes(p)\<close>: \<open>p\<close> occurs in \<open>s\<close> as a contiguous substring.\<close>

fun includesStr :: "string \<Rightarrow> string \<Rightarrow> bool" where
  "includesStr [] p = (p = [])"
| "includesStr (c # cs) p = (take (length p) (c # cs) = p \<or> includesStr cs p)"

text \<open>\<open>s.endsWith('P')\<close>.\<close>

definition endsWithP :: "string \<Rightarrow> bool" where
  "endsWithP s = (s \<noteq> [] \<and> last s = CHR ''P'')"

text \<open>\<open>s.split('/')\<close>: the pieces between the separators; one (empty) piece for the
  empty string.\<close>

fun splitOn :: "char \<Rightarrow> string \<Rightarrow> string list" where
  "splitOn sep [] = [[]]"
| "splitOn sep (c # cs) =
     (if c = sep then [] # splitOn sep cs
      else (case splitOn sep cs of
              [] \<Rightarrow> [[c]]
            | p # ps \<Rightarrow> (c # p) # ps))"

text \<open>\<open>/^\d+$/.test(s)\<close>: one or more ASCII digits and nothing else (there is no
  \<open>m\<close> flag, so \<open>$\<close> is the end of the input).\<close>

definition isDigits :: "string \<Rightarrow> bool" where
  "isDigits s = (s \<noteq> [] \<and> list_all (\<lambda>c. c \<in> set ''0123456789'') s)"

text \<open>\<open>/^[WUBRG]$/.test(s)\<close>: exactly one of the five colour letters.\<close>

definition isColorLetter :: "string \<Rightarrow> bool" where
  "isColorLetter s = (case s of [c] \<Rightarrow> c \<in> set ''WUBRG'' | _ \<Rightarrow> False)"

section \<open>Numbers of the language\<close>

text \<open>
  A number is an IEEE 754 double. \<open>Math.floor\<close> and the comparisons are exact. A
  subtraction gives the double nearest to the exact difference, the one with the even
  significand when two are equally near. The subtractions of the source are between
  whole numbers, so the exact difference is an \<open>int\<close>: \<open>roundDouble\<close> rounds it.
  \<open>doubleUlp a\<close> is the distance between neighbouring doubles at the magnitude \<open>a\<close>:
  1 below \<open>2^53\<close>, where every whole number is a double, and twice as much from each
  power of two on. (The largest double is not reached by the differences that occur.)
\<close>

function doubleUlp :: "int \<Rightarrow> int" where
  "doubleUlp a = (if a < 2 ^ 53 then 1 else 2 * doubleUlp (a div 2))"
  by pat_completeness auto
termination
  by (relation "measure nat") auto

declare doubleUlp.simps [simp del]

definition roundDouble :: "int \<Rightarrow> int" where
  "roundDouble n =
     (let a = \<bar>n\<bar>;
          u = doubleUlp a;
          q = a div u;
          r = a mod u;
          m = (if 2 * r < u then q
               else if u < 2 * r then q + 1
               else if even q then q else q + 1)
      in sgn n * (m * u))"

text \<open>A number that may be \<open>NaN\<close> is an \<open>option\<close>, with \<open>None\<close> for \<open>NaN\<close>; a
  difference is \<open>NaN\<close> when one of the two numbers is.\<close>

fun numberMinus :: "int option \<Rightarrow> int option \<Rightarrow> int option" where
  "numberMinus (Some x) (Some y) = Some (roundDouble (x - y))"
| "numberMinus _ _ = None"

section \<open>Mana evaluator (src/lib/scryfall.ts)\<close>

subsection \<open>parseManaSymbols\<close>

text \<open>
  \<open>manaCost.match(/\{[^}]+\}/g) || []\<close>: all non-overlapping matches, leftmost first.
  A match starts at an opening brace, takes the longest run of characters other than the
  closing brace (the run may hold further opening braces), and needs that run to be
  non-empty and followed by a closing brace. A shorter run is never followed by a closing
  brace, so backtracking finds nothing more; where no match starts, the scan moves on by
  one character. After a match the scan resumes behind its closing brace. No match at all
  gives \<open>null\<close>, which \<open>||\<close> turns into the empty array.
\<close>

function parseManaSymbols :: "string \<Rightarrow> string list" where
  "parseManaSymbols [] = []"
| "parseManaSymbols (c # cs) =
     (if c = CHR ''{''
         \<and> takeWhile (\<lambda>x. x \<noteq> CHR ''}'') cs \<noteq> []
         \<and> dropWhile (\<lambda>x. x \<noteq> CHR ''}'') cs \<noteq> []
      then (c # takeWhile (\<lambda>x. x \<noteq> CHR ''}'') cs @ [CHR ''}''])
             # parseManaSymbols (tl (dropWhile (\<lambda>x. x \<noteq> CHR ''}'') cs))
      else parseManaSymbols cs)"
  by pat_completeness auto
termination
proof (relation "measure length")
  fix c :: char and cs :: string
  have "length (tl (dropWhile (\<lambda>x. x \<noteq> CHR ''}'') cs)) \<le> length cs"
    using length_dropWhile_le [of "\<lambda>x. x \<noteq> CHR ''}''" cs] by simp
  then show "(tl (dropWhile (\<lambda>x. x \<noteq> CHR ''}'') cs), c # cs) \<in> measure length"
    by simp
qed simp_all

subsection \<open>getCardColors\<close>

text \<open>An array is truthy, so \<open>card.colors && card.colors.length > 0\<close> is the test
  that the array is non-empty.\<close>

definition getCardColors :: "ScryfallCard \<Rightarrow> string list" where
  "getCardColors crd =
     (if colors crd \<noteq> [] then colors crd
      else if color_identity crd \<noteq> [] then color_identity crd
      else [''C''])"

subsection \<open>countPhyrexianMana\<close>

text \<open>The loop over the symbols, with the counter as accumulator.\<close>

fun countPhyrexianSymbols :: "string list \<Rightarrow> nat \<Rightarrow> nat" where
  "countPhyrexianSymbols [] phyrexianCount = phyrexianCount"
| "countPhyrexianSymbols (symbol # symbols) phyrexianCount =
     (if includesStr (slice_1_m1 symbol) ''/P''
      then countPhyrexianSymbols symbols (phyrexianCount + 1)
      else countPhyrexianSymbols symbols phyrexianCount)"

text \<open>
  \<open>!manaCost\<close> holds for the empty string. \<open>card.card_faces && card.card_faces[0]\<close>
  holds when the optional array is present and has a first element (an array and an
  object are truthy, a missing element is \<open>undefined\<close>).
\<close>

definition countPhyrexianMana :: "ScryfallCard \<Rightarrow> nat" where
  "countPhyrexianMana crd =
     (let manaCost =
        (if mana_cost crd = [] then
           (case card_faces crd of
              Some (face # _) \<Rightarrow> CardFace.mana_cost face
            | _ \<Rightarrow> mana_cost crd)
         else mana_cost crd)
      in if manaCost = [] then 0
         else countPhyrexianSymbols (parseManaSymbols manaCost) 0)"

subsection \<open>cardMatchesManaValue\<close>

text \<open>\<open>Math.floor(card.cmc)\<close> is a whole number and the count of symbols is one (it
  stays far below \<open>2^53\<close>, a string being shorter than that); their difference is
  rounded as a double. The comparisons are those of numbers, so the target may be any
  finite number.\<close>

definition cardMatchesManaValue :: "ScryfallCard \<Rightarrow> rat \<Rightarrow> bool" where
  "cardMatchesManaValue crd targetManaValue =
     (let cmc = \<lfloor>cmc crd\<rfloor>;
          phyrexianCount = countPhyrexianMana crd;
          minMana = roundDouble (cmc - int phyrexianCount);
          maxMana = cmc
      in if targetManaValue = 10 then cmc \<ge> 10
         else targetManaValue \<ge> of_int minMana \<and> targetManaValue \<le> of_int maxMana)"

subsection \<open>isCardCastableWithColors\<close>

text \<open>
  The loop over the symbols: \<open>continue\<close> is the recursive call on the remaining
  symbols, \<open>return false\<close> ends the loop. The branches are tried in the order of the
  source: generic, then any symbol with a slash, then the Phyrexian test, then the single
  colour; a symbol that no branch handles is passed over.
\<close>

fun castableSymbols :: "string list \<Rightarrow> string list \<Rightarrow> bool" where
  "castableSymbols [] availableColors = True"
| "castableSymbols (symbol # symbols) availableColors =
     (let symbolContent = slice_1_m1 symbol in
      if isDigits symbolContent \<or> symbolContent = ''X'' then
        castableSymbols symbols availableColors
      else if includesStr symbolContent ''/'' then
        (let parts = splitOn CHR ''/'' symbolContent;
             colorParts = filter isColorLetter parts
         in if length colorParts > 0
               \<and> \<not> list_ex (\<lambda>color. color \<in> set availableColors) colorParts
            then False
            else castableSymbols symbols availableColors)
      else if endsWithP symbolContent \<and> isColorLetter (slice_0_m2 symbolContent) then
        castableSymbols symbols availableColors
      else if isColorLetter symbolContent \<and> symbolContent \<notin> set availableColors then
        False
      else castableSymbols symbols availableColors)"

definition isCardCastableWithColors :: "ScryfallCard \<Rightarrow> string list \<Rightarrow> bool" where
  "isCardCastableWithColors crd availableColors =
     (let manaCost =
        (if mana_cost crd = [] then
           (case card_faces crd of
              Some (face # _) \<Rightarrow> CardFace.mana_cost face
            | _ \<Rightarrow> mana_cost crd)
         else mana_cost crd)
      in if manaCost = [] then True
         else castableSymbols (parseManaSymbols manaCost) availableColors)"

text \<open>A string that the regular expression of \<open>parseManaSymbols\<close> matches as a
  whole: an opening brace, one or more characters other than the closing brace, a closing
  brace.\<close>

definition isSymbol :: "string \<Rightarrow> bool" where
  "isSymbol t =
     (case t of
        [] \<Rightarrow> False
      | c # r \<Rightarrow> c = CHR ''{'' \<and> r \<noteq> [] \<and> last r = CHR ''}''
                 \<and> butlast r \<noteq> [] \<and> CHR ''}'' \<notin> set (butlast r))"

section \<open>Catalog client (src/unnamed/part_001)\<close>

text \<open>
  The remote service is a parameter \<open>fetch\<close>: the answer to a request for a URL, with
  \<open>None\<close> when the promise of \<open>fetch\<close> rejects (a failure of the transport). During
  one call the answer depends on the URL alone. Of a response the code reads \<open>ok\<close>,
  \<open>status\<close> and the parsed body; the body is \<open>None\<close> when \<open>response.json()\<close>
  rejects. A thrown \<open>new Error(msg)\<close> is \<open>Inl (Error msg)\<close>, a rejection that passes
  through unchanged is \<open>Inl TransportFailure\<close> or \<open>Inl JsonFailure\<close>. The caching
  directives do not change what a call returns and are left out.
\<close>

datatype error = Error string | TransportFailure | JsonFailure

record 'a Response =
  ok :: bool
  status :: nat
  json :: "'a ScryfallListResponse option"

subsection \<open>encodeURIComponent\<close>

text \<open>The function of the language: a letter, a digit and each of \<open>- _ . ! ~ * ' ( )\<close>
  stays, every other byte of the UTF-8 form becomes \<open>%\<close> and two upper-case
  hexadecimal digits.\<close>

definition uriUnreserved :: "char \<Rightarrow> bool" where
  "uriUnreserved c =
     (c \<in> set (''ABCDEFGHIJKLMNOPQRSTUVWXYZabcdefghijklmnopqrstuvwxyz0123456789-_.!~*()''
               @ [CHR 0x27]))"

definition hexDigit :: "nat \<Rightarrow> char" where
  "hexDigit n = ''0123456789ABCDEF'' ! (n mod 16)"

definition encodeURIComponent :: "string \<Rightarrow> string" where
  "encodeURIComponent s =
     concat (map (\<lambda>c. if uriUnreserved c then [c]
                       else [CHR ''%'', hexDigit (of_char c div 16), hexDigit (of_char c mod 16)]) s)"

subsection \<open>fetchSets\<close>

text \<open>
  \<open>Array.prototype.sort\<close> with a comparison function. The sort reads a result of the
  comparison function through \<open>SortCompare\<close>, which takes \<open>NaN\<close> for \<open>+0\<close>. The
  sort is stable, and for a comparison function that orders the elements consistently
  its result is the one stable arrangement; insertion from the right computes it:
  \<open>insertBy\<close> puts an element in front of the first element it does not have to follow
  (comparison \<open>\<le> 0\<close>). For a comparison function that is not consistent (a \<open>NaN\<close>
  among the times below) the language leaves the arrangement to the engine, which
  returns the array as a rearrangement of itself; insertion then stands for the engine.
  Where no element compares as out of order with its neighbour, as in the example with
  a missing date below, it leaves the array as it is, as the engine does.
\<close>

definition sortCompare :: "int option \<Rightarrow> int" where
  "sortCompare v = (case v of None \<Rightarrow> 0 | Some n \<Rightarrow> n)"

fun insertBy :: "('a \<Rightarrow> 'a \<Rightarrow> int option) \<Rightarrow> 'a \<Rightarrow> 'a list \<Rightarrow> 'a list" where
  "insertBy cmp x [] = [x]"
| "insertBy cmp x (y # ys) =
     (if sortCompare (cmp x y) \<le> 0 then x # y # ys else y # insertBy cmp x ys)"

definition sortBy :: "('a \<Rightarrow> 'a \<Rightarrow> int option) \<Rightarrow> 'a list \<Rightarrow> 'a list" where
  "sortBy cmp xs = foldr (insertBy cmp) xs []"

definition validTypes :: "string list" where
  "validTypes = [''expansion'', ''core'', ''masters'', ''draft_innovation'', ''funny'']"

text \<open>\<open>getTime s\<close> stands for \<open>new Date(s).getTime()\<close>: the milliseconds of the date
  that the string denotes, a whole number, or \<open>NaN\<close> (\<open>None\<close>) when the string does not
  denote a date.\<close>

definition fetchSets ::
  "(string \<Rightarrow> int option) \<Rightarrow> (string \<Rightarrow> ScryfallSet Response option)
     \<Rightarrow> error + ScryfallSet list"
where
  "fetchSets getTime fetch =
     (case fetch ''https://api.scryfall.com/sets'' of
        None \<Rightarrow> Inl TransportFailure
      | Some response \<Rightarrow>
          if \<not> ok response then Inl (Error ''Failed to fetch sets'')
          else (case json response of
                  None \<Rightarrow> Inl JsonFailure
                | Some page \<Rightarrow>
                    Inr (sortBy (\<lambda>a b. numberMinus (getTime (released_at b))
                                                   (getTime (released_at a)))
                          (filter (\<lambda>s. set_type s \<in> set validTypes \<and> card_count s > 0)
                             (data page)))))"

subsection \<open>The paginated queries\<close>

text \<open>
  Each \<open>while (url)\<close> loop is a function of the loop's variables. A loop may run for
  ever (the service may hand out next-page pointers in a circle), so its result is an
  \<open>option\<close> and \<open>None\<close> is the call that never returns. \<open>url\<close> is falsy when it is
  \<open>null\<close> or the empty string. \<open>data.has_more ? data.next_page ?? null : null\<close> is the
  next-page pointer when \<open>has_more\<close> holds and \<open>null\<close> otherwise.
\<close>

partial_function (option) fetchCounterspellIds_loop ::
  "(string \<Rightarrow> ScryfallCard Response option) \<Rightarrow> string option \<Rightarrow> string set
     \<Rightarrow> (error + string set) option"
where
  "fetchCounterspellIds_loop fetch url ids =
     (case url of
        None \<Rightarrow> Some (Inr ids)
      | Some u \<Rightarrow>
          if u = [] then Some (Inr ids)
          else (case fetch u of
                  None \<Rightarrow> Some (Inl TransportFailure)
                | Some response \<Rightarrow>
                    if \<not> ok response then
                      (if status response = 404 then Some (Inr ids)
                       else Some (Inl (Error ''Failed to fetch counterspells'')))
                    else (case json response of
                            None \<Rightarrow> Some (Inl JsonFailure)
                          | Some page \<Rightarrow>
                              fetchCounterspellIds_loop fetch
                                (if has_more page then next_page page else None)
                                (fold (\<lambda>c. insert (id' c)) (data page) ids))))"

definition fetchCounterspellIds ::
  "(string \<Rightarrow> ScryfallCard Response option) \<Rightarrow> string \<Rightarrow> (error + string set) option"
where
  "fetchCounterspellIds fetch setCode =
     (let query = encodeURIComponent
            (''set:'' @ setCode @ '' (type:instant OR keyword:flash) oracletag:counterspell'');
          url = ''https://api.scryfall.com/cards/search?q='' @ query
      in fetchCounterspellIds_loop fetch (Some url) {})"

partial_function (option) fetchSpecialGuestsFromSet_loop ::
  "(string \<Rightarrow> ScryfallCard Response option) \<Rightarrow> string option \<Rightarrow> ScryfallCard list
     \<Rightarrow> (error + ScryfallCard list) option"
where
  "fetchSpecialGuestsFromSet_loop fetch url allCards =
     (case url of
        None \<Rightarrow> Some (Inr allCards)
      | Some u \<Rightarrow>
          if u = [] then Some (Inr allCards)
          else (case fetch u of
                  None \<Rightarrow> Some (Inl TransportFailure)
                | Some response \<Rightarrow>
                    if \<not> ok response then
                      (if status response = 404 then Some (Inr [])
                       else Some (Inl (Error ''Failed to fetch Special Guests cards'')))
                    else (case json response of
                            None \<Rightarrow> Some (Inl JsonFailure)
                          | Some page \<Rightarrow>
                              fetchSpecialGuestsFromSet_loop fetch
                                (if has_more page then next_page page else None)
                                (allCards @ data page))))"

definition fetchSpecialGuestsFromSet ::
  "(string \<Rightarrow> ScryfallCard Response option) \<Rightarrow> string \<Rightarrow> (error + ScryfallCard list) option"
where
  "fetchSpecialGuestsFromSet fetch setCode =
     (let query = encodeURIComponent
            (''set:spg date:'' @ setCode @ '' (type:instant OR keyword:flash)'');
          url = ''https://api.scryfall.com/cards/search?q='' @ query @ ''&order=cmc''
      in fetchSpecialGuestsFromSet_loop fetch (Some url) [])"

partial_function (option) fetchSpecialGuestsCounterspellIds_loop ::
  "(string \<Rightarrow> ScryfallCard Response option) \<Rightarrow> string option \<Rightarrow> string set
     \<Rightarrow> (error + string set) option"
where
  "fetchSpecialGuestsCounterspellIds_loop fetch url ids =
     (case url of
        None \<Rightarrow> Some (Inr ids)
      | Some u \<Rightarrow>
          if u = [] then Some (Inr ids)
          else (case fetch u of
                  None \<Rightarrow> Some (Inl TransportFailure)
                | Some response \<Rightarrow>
                    if \<not> ok response then
                      (if status response = 404 then Some (Inr ids)
                       else Some (Inl (Error ''Failed to fetch Special Guests counterspells'')))
                    else (case json response of
                            None \<Rightarrow> Some (Inl JsonFailure)
                          | Some page \<Rightarrow>
                              fetchSpecialGuestsCounterspellIds_loop fetch
                                (if has_more page then next_page page else None)
                                (fold (\<lambda>c. insert (id' c)) (data page) ids))))"

definition fetchSpecialGuestsCounterspellIds ::
  "(string \<Rightarrow> ScryfallCard Response option) \<Rightarrow> string \<Rightarrow> (error + string set) option"
where
  "fetchSpecialGuestsCounterspellIds fetch setCode =
     (let query = encodeURIComponent
            (''set:spg date:'' @ setCode
               @ '' (type:instant OR keyword:flash) oracletag:counterspell'');
          url = ''https://api.scryfall.com/cards/search?q='' @ query
      in fetchSpecialGuestsCounterspellIds_loop fetch (Some url) {})"

subsection \<open>fetchInstantsFromSet\<close>

text \<open>
  What follows the loop of \<open>fetchInstantsFromSet\<close> (lines 54 to 67), as a function of
  the cards the loop has gathered: the three further queries in their order, each one
  ending the call when it throws, then the marking of the cards. \<open>{...card,
  isCounterspell: b}\<close> is the card with that one field set.
\<close>

definition fetchInstantsFromSet_mark ::
  "(string \<Rightarrow> ScryfallCard Response option) \<Rightarrow> string \<Rightarrow> ScryfallCard list
     \<Rightarrow> (error + ScryfallCard list) option"
where
  "fetchInstantsFromSet_mark fetch setCode allCards =
     (case fetchSpecialGuestsFromSet fetch setCode of
        None \<Rightarrow> None
      | Some (Inl e) \<Rightarrow> Some (Inl e)
      | Some (Inr spgCards) \<Rightarrow>
          (case fetchCounterspellIds fetch setCode of
             None \<Rightarrow> None
           | Some (Inl e) \<Rightarrow> Some (Inl e)
           | Some (Inr counterspellIds) \<Rightarrow>
               (case fetchSpecialGuestsCounterspellIds fetch setCode of
                  None \<Rightarrow> None
                | Some (Inl e) \<Rightarrow> Some (Inl e)
                | Some (Inr spgCounterspellIds) \<Rightarrow>
                    Some (Inr (map (\<lambda>c. c\<lparr>isCounterspell :=
                                            Some (id' c \<in> counterspellIds \<union> spgCounterspellIds)\<rparr>)
                                 (allCards @ spgCards))))))"

text \<open>The loop of \<open>fetchInstantsFromSet\<close>. Its \<open>return []\<close> ends the whole call;
  when the loop is left because \<open>url\<close> is falsy, the call goes on with the part above.\<close>

partial_function (option) fetchInstantsFromSet_loop ::
  "(string \<Rightarrow> ScryfallCard Response option) \<Rightarrow> string \<Rightarrow> string option \<Rightarrow> ScryfallCard list
     \<Rightarrow> (error + ScryfallCard list) option"
where
  "fetchInstantsFromSet_loop fetch setCode url allCards =
     (case url of
        None \<Rightarrow> fetchInstantsFromSet_mark fetch setCode allCards
      | Some u \<Rightarrow>
          if u = [] then fetchInstantsFromSet_mark fetch setCode allCards
          else (case fetch u of
                  None \<Rightarrow> Some (Inl TransportFailure)
                | Some response \<Rightarrow>
                    if \<not> ok response then
                      (if status response = 404 then Some (Inr [])
                       else Some (Inl (Error ''Failed to fetch cards'')))
                    else (case json response of
                            None \<Rightarrow> Some (Inl JsonFailure)
                          | Some page \<Rightarrow>
                              fetchInstantsFromSet_loop fetch setCode
                                (if has_more page then next_page page else None)
                                (allCards @ data page))))"

definition fetchInstantsFromSet ::
  "(string \<Rightarrow> ScryfallCard Response option) \<Rightarrow> string \<Rightarrow> (error + ScryfallCard list) option"
where
  "fetchInstantsFromSet fetch setCode =
     (let query = encodeURIComponent (''set:'' @ setCode @ '' (type:instant OR keyword:flash)'');
          url = ''https://api.scryfall.com/cards/search?q='' @ query @ ''&order=cmc''
      in fetchInstantsFromSet_loop fetch setCode (Some url) [])"

section \<open>Example data\<close>

text \<open>A card that has the given id, mana cost, mana value and colours and is otherwise
  blank; the concrete cards of the examples below are built from it.\<close>

definition exampleCard :: "string \<Rightarrow> string \<Rightarrow> rat \<Rightarrow> string list \<Rightarrow> string list \<Rightarrow> ScryfallCard" where
  "exampleCard i cost v cs ci =
     \<lparr> id' = i, name = [], mana_cost = cost, cmc = v, type_line = ''Instant'',
       oracle_text = [], colors = cs, color_identity = ci, keywords' = None,
       rarity = ''common'', set' = ''neo'', set_name = [], image_uris = None,
       card_faces = None, scryfall_uri = [], legalities = [], isCounterspell = None \<rparr>"

text \<open>A set with the given code, category, release date and card count.\<close>

definition exampleSet :: "string \<Rightarrow> string \<Rightarrow> string \<Rightarrow> int \<Rightarrow> ScryfallSet" where
  "exampleSet c t d n =
     \<lparr> ScryfallSet.id' = c, code = c, name = [], set_type = t, released_at = d,
       card_count = n, icon_svg_uri = [], scryfall_uri = [] \<rparr>"

text \<open>\<open>new Date(s).getTime()\<close> on the release dates of the examples (midnight UTC of
  the day, in milliseconds); the empty string does not denote a date.\<close>

definition exampleGetTime :: "string \<Rightarrow> int option" where
  "exampleGetTime s =
     (if s = ''2020-07-03'' then Some 1593734400000
      else if s = ''2024-02-09'' then Some 1707436800000
      else if s = ''2024-04-19'' then Some 1713484800000
      else if s = ''2027-01-01'' then Some 1798761600000
      else None)"

text \<open>A service whose list of sets holds a core set, a commander set, an expansion and
  an expansion without cards.\<close>

definition exampleSetsFetch :: "string \<Rightarrow> ScryfallSet Response option" where
  "exampleSetsFetch u =
     (if u = ''https://api.scryfall.com/sets'' then
        Some \<lparr> ok = True, status = 200,
               json = Some \<lparr> object = ''list'', total_cards = None, has_more = False,
                             next_page = None,
                             data = [exampleSet ''m21'' ''core'' ''2020-07-03'' 397,
                                     exampleSet ''otc'' ''commander'' ''2024-04-19'' 374,
                                     exampleSet ''mkm'' ''expansion'' ''2024-02-09'' 445,
                                     exampleSet ''tbd'' ''expansion'' ''2027-01-01'' 0] \<rparr> \<rparr>
      else None)"

text \<open>A service whose list of sets holds three expansions with cards; the release date
  of the second is the empty string.\<close>

definition exampleSetsFetchNoDate :: "string \<Rightarrow> ScryfallSet Response option" where
  "exampleSetsFetchNoDate u =
     (if u = ''https://api.scryfall.com/sets'' then
        Some \<lparr> ok = True, status = 200,
               json = Some \<lparr> object = ''list'', total_cards = None, has_more = False,
                             next_page = None,
                             data = [exampleSet ''m21'' ''expansion'' ''2020-07-03'' 397,
                                     exampleSet ''xxx'' ''expansion'' [] 10,
                                     exampleSet ''mkm'' ''expansion'' ''2024-02-09'' 445] \<rparr> \<rparr>
      else None)"

text \<open>Responses: not-found, a server error, and a page of cards with an optional
  next-page pointer.\<close>

definition notFound :: "ScryfallCard Response" where
  "notFound = \<lparr> ok = False, status = 404, json = None \<rparr>"

definition serverError :: "ScryfallCard Response" where
  "serverError = \<lparr> ok = False, status = 500, json = None \<rparr>"

definition cardsPage :: "ScryfallCard list \<Rightarrow> string option \<Rightarrow> ScryfallCard Response" where
  "cardsPage cs nxt =
     \<lparr> ok = True, status = 200,
       json = Some \<lparr> object = ''list'', total_cards = None, has_more = (nxt \<noteq> None),
                     next_page = nxt, data = cs \<rparr> \<rparr>"

definition cardA :: ScryfallCard where "cardA = exampleCard ''id-a'' ''{1}{U}'' 2 [''U''] [''U'']"
definition cardB :: ScryfallCard where "cardB = exampleCard ''id-b'' ''{U}{U}'' 2 [''U''] [''U'']"
definition cardC :: ScryfallCard where "cardC = exampleCard ''id-c'' ''{2}{B/P}'' 3 [''B''] [''B'']"

text \<open>A service that answers the main query for \<open>neo\<close> in two pages, the
  counterspell query in one page that holds \<open>cardB\<close>, and every other request with
  not-found.\<close>

definition exampleFetch :: "string \<Rightarrow> ScryfallCard Response option" where
  "exampleFetch u =
     (if u = ''https://api.scryfall.com/cards/search?q=set%3Aneo%20(type%3Ainstant%20OR%20keyword%3Aflash)&order=cmc''
      then Some (cardsPage [cardA, cardB] (Some ''https://api.scryfall.com/cards/search?page=2''))
      else if u = ''https://api.scryfall.com/cards/search?page=2''
      then Some (cardsPage [cardC] None)
      else if u = ''https://api.scryfall.com/cards/search?q=set%3Aneo%20(type%3Ainstant%20OR%20keyword%3Aflash)%20oracletag%3Acounterspell''
      then Some (cardsPage [cardB] None)
      else Some notFound)"

text \<open>A service that answers the first page of the main query and of the counterspell
  query for \<open>neo\<close> with a next-page pointer, and that next page with not-found.\<close>

definition exampleFetchLate404 :: "string \<Rightarrow> ScryfallCard Response option" where
  "exampleFetchLate404 u =
     (if u = ''https://api.scryfall.com/cards/search?q=set%3Aneo%20(type%3Ainstant%20OR%20keyword%3Aflash)&order=cmc''
      then Some (cardsPage [cardA, cardB] (Some ''https://api.scryfall.com/cards/search?page=2''))
      else if u = ''https://api.scryfall.com/cards/search?q=set%3Aneo%20(type%3Ainstant%20OR%20keyword%3Aflash)%20oracletag%3Acounterspell''
      then Some (cardsPage [cardB] (Some ''https://api.scryfall.com/cards/search?page=2''))
      else Some notFound)"


section \<open>Properties of the numbers\<close>

lemma doubleUlp_small: "a < 2 ^ 53 \<Longrightarrow> doubleUlp a = 1"
  by (subst doubleUlp.simps) simp

lemma doubleUlp_pos: "1 \<le> doubleUlp a"
proof (induction a rule: doubleUlp.induct)
  case (1 a)
  show ?case
  proof (cases "a < 2 ^ 53")
    case True
    then show ?thesis by (simp add: doubleUlp_small)
  next
    case False
    with 1 have "1 \<le> doubleUlp (a div 2)" by simp
    with False show ?thesis by (subst doubleUlp.simps) simp
  qed
qed

lemma doubleUlp_le: "1 \<le> a \<Longrightarrow> doubleUlp a \<le> a"
proof (induction a rule: doubleUlp.induct)
  case (1 a)
  show ?case
  proof (cases "a < 2 ^ 53")
    case True
    with 1(2) show ?thesis by (simp add: doubleUlp_small)
  next
    case False
    then have "1 \<le> a div 2" by simp
    with 1(1) False have "doubleUlp (a div 2) \<le> a div 2" by simp
    then have "2 * doubleUlp (a div 2) \<le> a" by simp
    with False show ?thesis by (subst doubleUlp.simps) simp
  qed
qed

lemma roundDouble_exact:
  assumes "\<bar>n\<bar> \<le> 2 ^ 53"
  shows "roundDouble n = n"
proof (cases "\<bar>n\<bar> < 2 ^ 53")
  case True
  then have "doubleUlp \<bar>n\<bar> = 1" by (rule doubleUlp_small)
  then have "roundDouble n = sgn n * \<bar>n\<bar>"
    by (simp add: roundDouble_def Let_def)
  then show ?thesis by (simp add: mult_sgn_abs)
next
  case False
  with assms have a: "\<bar>n\<bar> = 2 ^ 53" by simp
  have "doubleUlp (2 ^ 53) = 2"
    by (subst doubleUlp.simps) (simp add: doubleUlp_small)
  with a have "roundDouble n = sgn n * \<bar>n\<bar>"
    by (simp add: roundDouble_def Let_def)
  then show ?thesis by (simp add: mult_sgn_abs)
qed

lemma roundDouble_magnitude:
  assumes "n \<noteq> 0"
  shows "\<exists>k. 0 < k \<and> roundDouble n = sgn n * k"
proof -
  let ?a = "\<bar>n\<bar>"
  let ?u = "doubleUlp ?a"
  let ?q = "?a div ?u"
  let ?r = "?a mod ?u"
  let ?m = "if 2 * ?r < ?u then ?q else if ?u < 2 * ?r then ?q + 1
            else if even ?q then ?q else ?q + 1"
  from assms have a: "1 \<le> ?a" by simp
  have u: "1 \<le> ?u" by (rule doubleUlp_pos)
  from a have "?u \<le> ?a" by (rule doubleUlp_le)
  with u have "0 < ?q"
    using pos_imp_zdiv_pos_iff [of ?u ?a] by linarith
  then have "1 \<le> ?q" by simp
  then have "1 \<le> ?m" by simp
  with u have "0 < ?m * ?u" by simp
  moreover have "roundDouble n = sgn n * (?m * ?u)"
    by (simp add: roundDouble_def Let_def)
  ultimately show ?thesis by blast
qed

lemma roundDouble_le_0: "roundDouble n \<le> 0 \<longleftrightarrow> n \<le> 0"
proof (cases "n = 0")
  case True
  then show ?thesis by (simp add: roundDouble_def Let_def)
next
  case False
  then obtain k where k: "0 < k" "roundDouble n = sgn n * k"
    using roundDouble_magnitude by blast
  show ?thesis
  proof (cases "n < 0")
    case True
    with k show ?thesis by simp
  next
    case False
    with \<open>n \<noteq> 0\<close> have "0 < n" by simp
    with k show ?thesis by simp
  qed
qed

section \<open>Properties of the mana evaluator\<close>

subsection \<open>parseManaSymbols\<close>

lemma isSymbol_shape:
  assumes "isSymbol t"
  obtains body where "t = CHR ''{'' # body @ [CHR ''}'']" "body \<noteq> []" "CHR ''}'' \<notin> set body"
proof -
  from assms obtain r where t: "t = CHR ''{'' # r" and r: "r \<noteq> []" "last r = CHR ''}''"
    "butlast r \<noteq> []" "CHR ''}'' \<notin> set (butlast r)"
    by (auto simp: isSymbol_def split: list.splits)
  from r(1,2) have "r = butlast r @ [CHR ''}'']"
    using append_butlast_last_id [of r] by simp
  with t r(3,4) show thesis
    using that [of "butlast r"] by simp
qed

lemma parseManaSymbols_symbol_append:
  assumes "isSymbol t"
  shows "parseManaSymbols (t @ s) = t # parseManaSymbols s"
proof -
  from assms obtain body where t: "t = CHR ''{'' # body @ [CHR ''}'']"
    and body: "body \<noteq> []" "CHR ''}'' \<notin> set body"
    by (rule isSymbol_shape)
  from body(2) have tw: "takeWhile (\<lambda>x. x \<noteq> CHR ''}'') (body @ CHR ''}'' # s) = body"
    by (induction body) auto
  from body(2) have dw: "dropWhile (\<lambda>x. x \<noteq> CHR ''}'') (body @ CHR ''}'' # s) = CHR ''}'' # s"
    by (induction body) auto
  show ?thesis
    using body(1) by (simp add: t tw dw)
qed

lemma parseManaSymbols_concat:
  "\<forall>t\<in>set ts. isSymbol t \<Longrightarrow> parseManaSymbols (concat ts) = ts"
  by (induction ts) (simp_all add: parseManaSymbols_symbol_append)

lemma parseManaSymbols_isSymbol: "t \<in> set (parseManaSymbols s) \<Longrightarrow> isSymbol t"
proof (induction s rule: parseManaSymbols.induct)
  case 1
  then show ?case by simp
next
  case (2 c cs)
  then show ?case
    apply (auto simp: isSymbol_def split: if_splits)
    using set_takeWhileD by fastforce
qed

text \<open>
  C9, as amended. The claim as written (joining the tokens of \<open>parseManaSymbols\<close>
  gives back every cost string) fails: the tokens are the matches of the regular
  expression, and what stands between or around them is dropped. What holds: for a cost
  string that is nothing but a sequence of bracketed symbols (each an opening brace, one
  or more characters other than the closing brace, a closing brace),
  \<open>parseManaSymbols\<close> returns exactly these symbols in their order; and joining the
  tokens gives the cost string back exactly when the cost string is such a sequence.
\<close>

theorem parseManaSymbols_roundtrip:
  "((\<forall>t\<in>set ts. isSymbol t) \<longrightarrow> parseManaSymbols (concat ts) = ts)
   \<and> (concat (parseManaSymbols s) = s
        \<longleftrightarrow> (\<exists>us. (\<forall>t\<in>set us. isSymbol t) \<and> s = concat us))"
proof (intro conjI impI iffI)
  assume "\<forall>t\<in>set ts. isSymbol t"
  then show "parseManaSymbols (concat ts) = ts"
    by (rule parseManaSymbols_concat)
next
  assume "concat (parseManaSymbols s) = s"
  then have "(\<forall>t\<in>set (parseManaSymbols s). isSymbol t) \<and> s = concat (parseManaSymbols s)"
    by (simp add: parseManaSymbols_isSymbol)
  then show "\<exists>us. (\<forall>t\<in>set us. isSymbol t) \<and> s = concat us" ..
next
  assume "\<exists>us. (\<forall>t\<in>set us. isSymbol t) \<and> s = concat us"
  then obtain us where "\<forall>t\<in>set us. isSymbol t" and "s = concat us" by blast
  then show "concat (parseManaSymbols s) = s"
    by (simp add: parseManaSymbols_concat)
qed

theorem parseManaSymbols_roundtrip_witness:
  "isSymbol ''{1}'' \<and> isSymbol ''{B/P}'' \<and> isSymbol ''{G/W}''
   \<and> parseManaSymbols (concat [''{1}'', ''{B/P}'', ''{G/W}'']) = [''{1}'', ''{B/P}'', ''{G/W}'']
   \<and> concat (parseManaSymbols ''{1}{B/P}{G/W}'') = ''{1}{B/P}{G/W}''"
proof -
  have h: "isSymbol ''{1}'' \<and> isSymbol ''{B/P}'' \<and> isSymbol ''{G/W}''"
    by (simp add: isSymbol_def)
  then have a: "\<forall>t\<in>set [''{1}'', ''{B/P}'', ''{G/W}'']. isSymbol t"
    by simp
  then have e: "\<exists>us. (\<forall>t\<in>set us. isSymbol t) \<and> ''{1}{B/P}{G/W}'' = concat us"
    by (intro exI [of _ "[''{1}'', ''{B/P}'', ''{G/W}'']"]) simp
  from parseManaSymbols_roundtrip [of "[''{1}'', ''{B/P}'', ''{G/W}'']" "''{1}{B/P}{G/W}''"] a e h
  show ?thesis by blast
qed

text \<open>The cost of a split card is not such a sequence: the two halves are separated
  by \<open>//\<close>, which the tokens do not hold.\<close>

theorem parseManaSymbols_roundtrip_counterexample:
  "concat (parseManaSymbols ''{1}{R} // {1}{U}'') \<noteq> ''{1}{R} // {1}{U}''"
  by simp

subsection \<open>getCardColors\<close>

text \<open>
  C8. \<open>getCardColors\<close> returns the card's \<open>colors\<close> when that list is non-empty
  (whatever \<open>color_identity\<close> is), otherwise the card's \<open>color_identity\<close> when that is
  non-empty, otherwise the one-element list \<open>['C']\<close>; the result is never empty.
\<close>

theorem getCardColors_spec:
  "(colors crd \<noteq> [] \<longrightarrow> getCardColors crd = colors crd)
   \<and> (colors crd = [] \<and> color_identity crd \<noteq> [] \<longrightarrow> getCardColors crd = color_identity crd)
   \<and> (colors crd = [] \<and> color_identity crd = [] \<longrightarrow> getCardColors crd = [''C''])
   \<and> getCardColors crd \<noteq> []"
  by (simp add: getCardColors_def)

theorem getCardColors_spec_witness:
  "colors (exampleCard ''a'' ''{R}'' 1 [''R''] [''R'', ''G'']) \<noteq> []
   \<and> getCardColors (exampleCard ''a'' ''{R}'' 1 [''R''] [''R'', ''G'']) = [''R'']
   \<and> colors (exampleCard ''b'' ''{1}'' 1 [] [''U'']) = []
   \<and> color_identity (exampleCard ''b'' ''{1}'' 1 [] [''U'']) \<noteq> []
   \<and> getCardColors (exampleCard ''b'' ''{1}'' 1 [] [''U'']) = [''U'']
   \<and> colors (exampleCard ''c'' ''{1}'' 1 [] []) = []
   \<and> color_identity (exampleCard ''c'' ''{1}'' 1 [] []) = []
   \<and> getCardColors (exampleCard ''c'' ''{1}'' 1 [] []) = [''C'']"
  using getCardColors_spec [of "exampleCard ''a'' ''{R}'' 1 [''R''] [''R'', ''G'']"]
        getCardColors_spec [of "exampleCard ''b'' ''{1}'' 1 [] [''U'']"]
        getCardColors_spec [of "exampleCard ''c'' ''{1}'' 1 [] []"]
  by (simp add: exampleCard_def)

subsection \<open>cardMatchesManaValue\<close>

text \<open>The count that \<open>countPhyrexianMana\<close> returns is the number of symbols of the
  resolved cost (the card's own cost, or the cost of the first face when the card has
  none) whose content holds \<open>/P\<close>; a colour letter with the Phyrexian suffix is such
  a symbol.\<close>

lemma countPhyrexianSymbols_filter:
  "countPhyrexianSymbols symbols n =
     n + length (filter (\<lambda>symbol. includesStr (slice_1_m1 symbol) ''/P'') symbols)"
  by (induction symbols arbitrary: n) simp_all

lemma countPhyrexianMana_count:
  "countPhyrexianMana crd =
     length (filter (\<lambda>symbol. includesStr (slice_1_m1 symbol) ''/P'')
       (parseManaSymbols
          (if mana_cost crd \<noteq> [] then mana_cost crd
           else (case card_faces crd of
                   Some (face # _) \<Rightarrow> CardFace.mana_cost face
                 | _ \<Rightarrow> []))))"
  by (simp add: countPhyrexianMana_def Let_def countPhyrexianSymbols_filter
      split: option.splits list.splits)

lemma phyrexian_symbol_counted:
  "c \<in> set ''WUBRG'' \<Longrightarrow> includesStr (slice_1_m1 ([CHR ''{'', c] @ ''/P}'')) ''/P''"
  by (simp add: slice_1_m1_def)

text \<open>
  C3, as amended. The claim as written fails for a card whose mana value is so large
  that the difference \<open>cmc - p\<close>, a number of the language, is not exact. What holds:
  with \<open>cmc = floor(card.cmc)\<close> and \<open>p\<close> the number of symbols of the card's resolved
  cost whose content holds \<open>/P\<close>, which is what \<open>countPhyrexianMana\<close> returns: for the
  target 10 the function is true exactly when \<open>cmc \<ge> 10\<close>, whatever \<open>p\<close> is; for every
  other target, when \<open>cmc - p\<close> is of magnitude at most \<open>2^53\<close>, it is true exactly when
  \<open>cmc - p \<le> target \<le> cmc\<close>. With \<open>cmc = 3\<close> and \<open>p = 1\<close> the targets 2 and 3 are
  accepted and 0, 1 and 4 rejected.
\<close>

theorem cardMatchesManaValue_spec:
  assumes "cost = (if mana_cost crd \<noteq> [] then mana_cost crd
                   else (case card_faces crd of
                           Some (face # _) \<Rightarrow> CardFace.mana_cost face
                         | _ \<Rightarrow> []))"
    and "p = length (filter (\<lambda>symbol. includesStr (slice_1_m1 symbol) ''/P'')
                       (parseManaSymbols cost))"
  shows "countPhyrexianMana crd = p
     \<and> (cardMatchesManaValue crd 10 \<longleftrightarrow> \<lfloor>cmc crd\<rfloor> \<ge> 10)
     \<and> (target \<noteq> 10 \<and> \<bar>\<lfloor>cmc crd\<rfloor> - int p\<bar> \<le> 2 ^ 53 \<longrightarrow>
          (cardMatchesManaValue crd target \<longleftrightarrow>
             of_int (\<lfloor>cmc crd\<rfloor> - int p) \<le> target \<and> target \<le> of_int \<lfloor>cmc crd\<rfloor>))
     \<and> (\<lfloor>cmc crd\<rfloor> = 3 \<and> p = 1 \<longrightarrow>
          cardMatchesManaValue crd 2 \<and> cardMatchesManaValue crd 3
          \<and> \<not> cardMatchesManaValue crd 0 \<and> \<not> cardMatchesManaValue crd 1
          \<and> \<not> cardMatchesManaValue crd 4)"
proof -
  from assms have p: "countPhyrexianMana crd = p"
    by (simp only: countPhyrexianMana_count)
  have ten: "cardMatchesManaValue crd 10 \<longleftrightarrow> \<lfloor>cmc crd\<rfloor> \<ge> 10"
    by (simp add: cardMatchesManaValue_def Let_def)
  have range: "cardMatchesManaValue crd t \<longleftrightarrow>
      of_int (\<lfloor>cmc crd\<rfloor> - int p) \<le> t \<and> t \<le> of_int \<lfloor>cmc crd\<rfloor>"
    if "t \<noteq> 10" and "\<bar>\<lfloor>cmc crd\<rfloor> - int p\<bar> \<le> 2 ^ 53" for t
    using that p roundDouble_exact [of "\<lfloor>cmc crd\<rfloor> - int p"]
    by (simp add: cardMatchesManaValue_def Let_def)
  have three: "cardMatchesManaValue crd 2 \<and> cardMatchesManaValue crd 3
      \<and> \<not> cardMatchesManaValue crd 0 \<and> \<not> cardMatchesManaValue crd 1
      \<and> \<not> cardMatchesManaValue crd 4"
    if "\<lfloor>cmc crd\<rfloor> = 3 \<and> p = 1"
  proof -
    from that have "\<bar>\<lfloor>cmc crd\<rfloor> - int p\<bar> \<le> 2 ^ 53" by simp
    with that range [of 2] range [of 3] range [of 0] range [of 1] range [of 4]
    show ?thesis by simp
  qed
  from p ten range three show ?thesis by blast
qed

lemma example_count:
  "length (filter (\<lambda>symbol. includesStr (slice_1_m1 symbol) ''/P'')
     (parseManaSymbols ''{2}{B/P}'')) = 1"
  by (simp add: slice_1_m1_def)

theorem cardMatchesManaValue_spec_witness:
  "(2::rat) \<noteq> 10
   \<and> \<lfloor>cmc (exampleCard ''a'' ''{2}{B/P}'' 3 [''B''] [''B''])\<rfloor> = 3
   \<and> mana_cost (exampleCard ''a'' ''{2}{B/P}'' 3 [''B''] [''B'']) = ''{2}{B/P}''
   \<and> length (filter (\<lambda>symbol. includesStr (slice_1_m1 symbol) ''/P'')
        (parseManaSymbols ''{2}{B/P}'')) = 1
   \<and> countPhyrexianMana (exampleCard ''a'' ''{2}{B/P}'' 3 [''B''] [''B'']) = 1
   \<and> cardMatchesManaValue (exampleCard ''a'' ''{2}{B/P}'' 3 [''B''] [''B'']) 2
   \<and> cardMatchesManaValue (exampleCard ''a'' ''{2}{B/P}'' 3 [''B''] [''B'']) 3
   \<and> \<not> cardMatchesManaValue (exampleCard ''a'' ''{2}{B/P}'' 3 [''B''] [''B'']) 0
   \<and> \<not> cardMatchesManaValue (exampleCard ''a'' ''{2}{B/P}'' 3 [''B''] [''B'']) 1
   \<and> \<not> cardMatchesManaValue (exampleCard ''a'' ''{2}{B/P}'' 3 [''B''] [''B'']) 4
   \<and> \<not> cardMatchesManaValue (exampleCard ''a'' ''{2}{B/P}'' 3 [''B''] [''B'']) 10"
proof -
  let ?c = "exampleCard ''a'' ''{2}{B/P}'' 3 [''B''] [''B'']"
  have m: "mana_cost ?c = ''{2}{B/P}''" and f: "\<lfloor>cmc ?c\<rfloor> = 3"
    by (simp_all add: exampleCard_def)
  from m have cost: "''{2}{B/P}'' = (if mana_cost ?c \<noteq> [] then mana_cost ?c
                   else (case card_faces ?c of
                           Some (face # _) \<Rightarrow> CardFace.mana_cost face
                         | _ \<Rightarrow> []))"
    by simp
  note p = example_count [symmetric]
  from cardMatchesManaValue_spec [OF cost p, of 2] f m example_count
  show ?thesis by simp
qed

text \<open>A card of mana value \<open>2^53 + 2\<close> with one Phyrexian symbol: \<open>cmc - p\<close> is
  \<open>2^53 + 1\<close>, which is not a double and becomes \<open>2^53\<close>, so the target \<open>2^53\<close> is
  accepted although it is below \<open>cmc - p\<close>.\<close>

lemma roundDouble_example: "roundDouble 9007199254740993 = 9007199254740992"
proof -
  have "doubleUlp 9007199254740993 = 2"
    by (simp add: doubleUlp.simps)
  then show ?thesis
    by (simp add: roundDouble_def)
qed

theorem cardMatchesManaValue_spec_counterexample:
  "\<lfloor>cmc (exampleCard ''big'' ''{B/P}'' 9007199254740994 [''B''] [''B''])\<rfloor> = 9007199254740994
   \<and> countPhyrexianMana (exampleCard ''big'' ''{B/P}'' 9007199254740994 [''B''] [''B'']) = 1
   \<and> (9007199254740992::rat) \<noteq> 10
   \<and> cardMatchesManaValue (exampleCard ''big'' ''{B/P}'' 9007199254740994 [''B''] [''B''])
        9007199254740992
   \<and> \<not> (of_int (9007199254740994 - int 1) \<le> (9007199254740992::rat))"
proof -
  let ?c = "exampleCard ''big'' ''{B/P}'' 9007199254740994 [''B''] [''B'']"
  have f: "\<lfloor>cmc ?c\<rfloor> = 9007199254740994"
    by (simp add: exampleCard_def)
  have p: "countPhyrexianMana ?c = 1"
    by (simp add: countPhyrexianMana_def exampleCard_def slice_1_m1_def)
  have m: "cardMatchesManaValue ?c 9007199254740992"
    by (simp add: cardMatchesManaValue_def Let_def f p roundDouble_example)
  have n: "\<not> (of_int (9007199254740994 - int 1) \<le> (9007199254740992::rat))"
    by simp
  from f p m n show ?thesis by simp
qed

subsection \<open>isCardCastableWithColors\<close>

lemma castableSymbols_mono:
  "set A \<subseteq> set B \<Longrightarrow> castableSymbols symbols A \<Longrightarrow> castableSymbols symbols B"
proof (induction symbols)
  case Nil
  then show ?case by simp
next
  case (Cons symbol symbols)
  from Cons.prems(1) have ex: "list_ex (\<lambda>color. color \<in> set A) ps \<Longrightarrow> list_ex (\<lambda>color. color \<in> set B) ps" for ps
    by (auto simp: list_ex_iff)
  from Cons show ?case
    by (auto simp: Let_def dest: ex split: if_splits)
qed

text \<open>
  C10. \<open>isCardCastableWithColors\<close> is monotone in the available colours: when every
  element of \<open>A\<close> is an element of \<open>B\<close> and the card is castable with \<open>A\<close>, it is
  castable with \<open>B\<close>.
\<close>

theorem isCardCastableWithColors_mono:
  "set A \<subseteq> set B \<Longrightarrow> isCardCastableWithColors crd A \<Longrightarrow> isCardCastableWithColors crd B"
  by (auto simp: isCardCastableWithColors_def Let_def dest: castableSymbols_mono split: if_splits)

theorem isCardCastableWithColors_mono_witness:
  "set [''U'', ''G''] \<subseteq> set [''G'', ''R'', ''U'']
   \<and> isCardCastableWithColors (exampleCard ''a'' ''{1}{G/W}{U}'' 3 [] []) [''U'', ''G'']
   \<and> isCardCastableWithColors (exampleCard ''a'' ''{1}{G/W}{U}'' 3 [] []) [''G'', ''R'', ''U'']"
proof -
  have s: "set [''U'', ''G''] \<subseteq> set [''G'', ''R'', ''U'']" by simp
  have a: "isCardCastableWithColors (exampleCard ''a'' ''{1}{G/W}{U}'' 3 [] []) [''U'', ''G'']"
    by (simp add: isCardCastableWithColors_def exampleCard_def slice_1_m1_def isDigits_def
        isColorLetter_def endsWithP_def slice_0_m2_def)
  from isCardCastableWithColors_mono [OF s a] s a show ?thesis by blast
qed

text \<open>
  C1. The claim is that a Phyrexian symbol such as \<open>{B/P}\<close> never makes
  \<open>isCardCastableWithColors\<close> return false. The symbol holds a slash, so the branch for
  hybrid symbols takes it before the Phyrexian branch is reached: its parts are \<open>B\<close> and
  \<open>P\<close>, the colour part \<open>B\<close> is not available, and the function returns false.
\<close>

theorem isCardCastableWithColors_phyrexian_rejected:
  "isCardCastableWithColors (exampleCard ''a'' ''{B/P}'' 1 [''B''] [''B'']) [] = False"
  by (simp add: isCardCastableWithColors_def exampleCard_def slice_1_m1_def isDigits_def
        isColorLetter_def)

text \<open>
  C2. The claim is that a generic/colour symbol such as \<open>{2/G}\<close> never makes
  \<open>isCardCastableWithColors\<close> return false. The same branch finds the colour part
  \<open>G\<close>, which is not among the available colours, and returns false; the generic part
  is not looked at.
\<close>

theorem isCardCastableWithColors_generic_hybrid_rejected:
  "isCardCastableWithColors (exampleCard ''a'' ''{2/G}'' 2 [''G''] [''G'']) [''W'', ''U'', ''B'', ''R''] = False"
  by (simp add: isCardCastableWithColors_def exampleCard_def slice_1_m1_def isDigits_def
        isColorLetter_def)

section \<open>Properties of the catalog client\<close>

subsection \<open>fetchSets\<close>

lemma set_insertBy: "set (insertBy cmp x ys) = insert x (set ys)"
  by (induction ys) auto

lemma set_sortBy: "set (sortBy cmp xs) = set xs"
  by (induction xs) (simp_all add: sortBy_def set_insertBy)

lemma sorted_insertBy:
  fixes k :: "'a \<Rightarrow> int option"
  assumes "sorted_wrt (\<lambda>a b. \<exists>ta tb. k a = Some ta \<and> k b = Some tb \<and> tb \<le> ta) ys"
    and "k x \<noteq> None" and "\<forall>y\<in>set ys. k y \<noteq> None"
  shows "sorted_wrt (\<lambda>a b. \<exists>ta tb. k a = Some ta \<and> k b = Some tb \<and> tb \<le> ta)
           (insertBy (\<lambda>a b. numberMinus (k b) (k a)) x ys)"
  using assms
proof (induction ys)
  case Nil
  then show ?case by simp
next
  case (Cons y ys)
  from Cons.prems obtain tx ty where t: "k x = Some tx" "k y = Some ty" by auto
  then have c: "sortCompare (numberMinus (k y) (k x)) \<le> 0 \<longleftrightarrow> ty \<le> tx"
    by (simp add: sortCompare_def roundDouble_le_0)
  show ?case
  proof (cases "ty \<le> tx")
    case True
    with Cons.prems t c show ?thesis by fastforce
  next
    case False
    with Cons t c show ?thesis by (auto simp: set_insertBy)
  qed
qed

lemma sorted_sortBy:
  fixes k :: "'a \<Rightarrow> int option"
  assumes "\<forall>x\<in>set xs. k x \<noteq> None"
  shows "sorted_wrt (\<lambda>a b. \<exists>ta tb. k a = Some ta \<and> k b = Some tb \<and> tb \<le> ta)
           (sortBy (\<lambda>a b. numberMinus (k b) (k a)) xs)"
  using assms
proof (induction xs)
  case Nil
  then show ?case by (simp add: sortBy_def)
next
  case (Cons x xs)
  then have "sorted_wrt (\<lambda>a b. \<exists>ta tb. k a = Some ta \<and> k b = Some tb \<and> tb \<le> ta)
           (sortBy (\<lambda>a b. numberMinus (k b) (k a)) xs)"
    by simp
  from sorted_insertBy [where k = k, OF this, of x] Cons.prems show ?case
    by (simp add: sortBy_def set_sortBy [unfolded sortBy_def])
qed

text \<open>
  C7, as amended. The claim as written fails in its ordering part when a release date
  is not a valid date: the comparison is then \<open>NaN\<close> and the sort does not order by
  date. What holds: when the service answers the request for the sets with a success,
  \<open>fetchSets\<close> returns a sequence in which every set has a \<open>set_type\<close> among
  \<open>expansion\<close>, \<open>core\<close>, \<open>masters\<close>, \<open>draft_innovation\<close>, \<open>funny\<close> and a
  \<open>card_count\<close> above 0 (and comes from the response), and in which every set of the
  response that meets both conditions appears; and when the release date of every such
  set is a valid date, the sequence is ordered descending by release date.
\<close>

theorem fetchSets_spec:
  assumes "fetch ''https://api.scryfall.com/sets'' = Some response"
    and "ok response"
    and "json response = Some page"
  shows "\<exists>sets. fetchSets getTime fetch = Inr sets
           \<and> (\<forall>s\<in>set sets.
                 set_type s \<in> {''expansion'', ''core'', ''masters'', ''draft_innovation'', ''funny''}
                 \<and> card_count s > 0 \<and> s \<in> set (data page))
           \<and> (\<forall>s\<in>set (data page).
                 set_type s \<in> {''expansion'', ''core'', ''masters'', ''draft_innovation'', ''funny''}
                 \<and> card_count s > 0 \<longrightarrow> s \<in> set sets)
           \<and> ((\<forall>s\<in>set (data page).
                 set_type s \<in> {''expansion'', ''core'', ''masters'', ''draft_innovation'', ''funny''}
                 \<and> card_count s > 0 \<longrightarrow> getTime (released_at s) \<noteq> None)
               \<longrightarrow> sorted_wrt (\<lambda>a b. \<exists>ta tb. getTime (released_at a) = Some ta
                                       \<and> getTime (released_at b) = Some tb \<and> tb \<le> ta) sets)"
proof -
  let ?valid = "\<lambda>s. set_type s \<in> set validTypes \<and> card_count s > 0"
  let ?sets = "sortBy (\<lambda>a b. numberMinus (getTime (released_at b)) (getTime (released_at a)))
                 (filter ?valid (data page))"
  have r: "fetchSets getTime fetch = Inr ?sets"
    using assms by (simp add: fetchSets_def)
  have s: "set ?sets = {s \<in> set (data page). ?valid s}"
    by (simp add: set_sortBy)
  have v: "set validTypes = {''expansion'', ''core'', ''masters'', ''draft_innovation'', ''funny''}"
    by (simp add: validTypes_def)
  from s v have m: "\<forall>s\<in>set ?sets.
      set_type s \<in> {''expansion'', ''core'', ''masters'', ''draft_innovation'', ''funny''}
      \<and> card_count s > 0 \<and> s \<in> set (data page)"
    by blast
  from s v have c: "\<forall>s\<in>set (data page).
      set_type s \<in> {''expansion'', ''core'', ''masters'', ''draft_innovation'', ''funny''}
      \<and> card_count s > 0 \<longrightarrow> s \<in> set ?sets"
    by blast
  have o: "sorted_wrt (\<lambda>a b. \<exists>ta tb. getTime (released_at a) = Some ta
                          \<and> getTime (released_at b) = Some tb \<and> tb \<le> ta) ?sets"
    if d: "\<forall>s\<in>set (data page).
        set_type s \<in> {''expansion'', ''core'', ''masters'', ''draft_innovation'', ''funny''}
        \<and> card_count s > 0 \<longrightarrow> getTime (released_at s) \<noteq> None"
  proof -
    from d v have "\<forall>x\<in>set (filter ?valid (data page)). getTime (released_at x) \<noteq> None"
      by simp
    from sorted_sortBy [where k = "\<lambda>s::ScryfallSet. getTime (released_at s)", OF this]
    show ?thesis by simp
  qed
  from r m c o show ?thesis by blast
qed

lemma exampleSetsFetch_result:
  "fetchSets exampleGetTime exampleSetsFetch =
     Inr [exampleSet ''mkm'' ''expansion'' ''2024-02-09'' 445,
          exampleSet ''m21'' ''core'' ''2020-07-03'' 397]"
  by (simp add: fetchSets_def exampleSetsFetch_def exampleSet_def validTypes_def sortBy_def
      exampleGetTime_def sortCompare_def roundDouble_le_0)

theorem fetchSets_spec_witness:
  "exampleSetsFetch ''https://api.scryfall.com/sets'' =
     Some \<lparr> ok = True, status = 200,
            json = Some \<lparr> object = ''list'', total_cards = None, has_more = False,
                          next_page = None,
                          data = [exampleSet ''m21'' ''core'' ''2020-07-03'' 397,
                                  exampleSet ''otc'' ''commander'' ''2024-04-19'' 374,
                                  exampleSet ''mkm'' ''expansion'' ''2024-02-09'' 445,
                                  exampleSet ''tbd'' ''expansion'' ''2027-01-01'' 0] \<rparr> \<rparr>
   \<and> exampleGetTime ''2020-07-03'' = Some 1593734400000
   \<and> exampleGetTime ''2024-02-09'' = Some 1707436800000
   \<and> fetchSets exampleGetTime exampleSetsFetch =
       Inr [exampleSet ''mkm'' ''expansion'' ''2024-02-09'' 445,
            exampleSet ''m21'' ''core'' ''2020-07-03'' 397]
   \<and> sorted_wrt (\<lambda>a b. \<exists>ta tb. exampleGetTime (released_at a) = Some ta
                       \<and> exampleGetTime (released_at b) = Some tb \<and> tb \<le> ta)
        [exampleSet ''mkm'' ''expansion'' ''2024-02-09'' 445,
         exampleSet ''m21'' ''core'' ''2020-07-03'' 397]"
proof -
  let ?page = "\<lparr> object = ''list'', total_cards = None, has_more = False,
                  next_page = None,
                  data = [exampleSet ''m21'' ''core'' ''2020-07-03'' 397,
                          exampleSet ''otc'' ''commander'' ''2024-04-19'' 374,
                          exampleSet ''mkm'' ''expansion'' ''2024-02-09'' 445,
                          exampleSet ''tbd'' ''expansion'' ''2027-01-01'' 0] \<rparr>"
  let ?response = "\<lparr> ok = True, status = 200, json = Some ?page \<rparr>"
  have h1: "exampleSetsFetch ''https://api.scryfall.com/sets'' = Some ?response"
    by (simp add: exampleSetsFetch_def)
  have h2: "ok ?response" by simp
  have h3: "json ?response = Some ?page" by simp
  have t: "exampleGetTime ''2020-07-03'' = Some 1593734400000"
    "exampleGetTime ''2024-02-09'' = Some 1707436800000"
    by (simp_all add: exampleGetTime_def)
  have d: "\<forall>s\<in>set (data ?page).
      set_type s \<in> {''expansion'', ''core'', ''masters'', ''draft_innovation'', ''funny''}
      \<and> card_count s > 0 \<longrightarrow> exampleGetTime (released_at s) \<noteq> None"
    by (simp add: exampleSet_def exampleGetTime_def)
  from fetchSets_spec [where fetch = exampleSetsFetch and getTime = exampleGetTime, OF h1 h2 h3]
  obtain sets where r: "fetchSets exampleGetTime exampleSetsFetch = Inr sets"
    and s: "(\<forall>s\<in>set (data ?page).
      set_type s \<in> {''expansion'', ''core'', ''masters'', ''draft_innovation'', ''funny''}
      \<and> card_count s > 0 \<longrightarrow> exampleGetTime (released_at s) \<noteq> None)
      \<longrightarrow> sorted_wrt (\<lambda>a b. \<exists>ta tb. exampleGetTime (released_at a) = Some ta
                       \<and> exampleGetTime (released_at b) = Some tb \<and> tb \<le> ta) sets"
    by blast
  from s d have o: "sorted_wrt (\<lambda>a b. \<exists>ta tb. exampleGetTime (released_at a) = Some ta
                       \<and> exampleGetTime (released_at b) = Some tb \<and> tb \<le> ta) sets"
    by (rule mp)
  from r have e: "sets = [exampleSet ''mkm'' ''expansion'' ''2024-02-09'' 445,
                       exampleSet ''m21'' ''core'' ''2020-07-03'' 397]"
    by (simp add: exampleSetsFetch_result)
  from h1 t r o show ?thesis
    unfolding e by (intro conjI)
qed

text \<open>Three qualifying sets of which the second has no valid release date: every
  comparison with it is \<open>NaN\<close>, the array is returned in the order of the response, and
  the set of 2020 stands before the set of 2024.\<close>

theorem fetchSets_spec_counterexample:
  "fetchSets exampleGetTime exampleSetsFetchNoDate =
     Inr [exampleSet ''m21'' ''expansion'' ''2020-07-03'' 397,
          exampleSet ''xxx'' ''expansion'' [] 10,
          exampleSet ''mkm'' ''expansion'' ''2024-02-09'' 445]
   \<and> exampleGetTime (released_at (exampleSet ''m21'' ''expansion'' ''2020-07-03'' 397))
       = Some 1593734400000
   \<and> exampleGetTime (released_at (exampleSet ''xxx'' ''expansion'' [] 10)) = None
   \<and> exampleGetTime (released_at (exampleSet ''mkm'' ''expansion'' ''2024-02-09'' 445))
       = Some 1707436800000
   \<and> (1593734400000 :: int) < 1707436800000"
  by (simp add: fetchSets_def exampleSetsFetchNoDate_def exampleSet_def validTypes_def sortBy_def
      exampleGetTime_def sortCompare_def)

subsection \<open>The paginated queries\<close>

lemmas url_simps = encodeURIComponent_def uriUnreserved_def hexDigit_def

lemma fetchCounterspellIds_loop_Error:
  "fetchCounterspellIds_loop fetch url ids = Some r \<Longrightarrow> r = Inl (Error msg) \<Longrightarrow>
     \<exists>u response. fetch u = Some response \<and> \<not> ok response \<and> status response \<noteq> 404"
proof (induction arbitrary: msg rule: fetchCounterspellIds_loop.raw_induct [rotated 1, consumes 1])
  case (1 loop fetch url ids r)
  then show ?case
    by (auto split: option.splits if_splits)
qed

lemma fetchSpecialGuestsCounterspellIds_loop_Error:
  "fetchSpecialGuestsCounterspellIds_loop fetch url ids = Some r \<Longrightarrow> r = Inl (Error msg) \<Longrightarrow>
     \<exists>u response. fetch u = Some response \<and> \<not> ok response \<and> status response \<noteq> 404"
proof (induction arbitrary: msg rule: fetchSpecialGuestsCounterspellIds_loop.raw_induct [rotated 1, consumes 1])
  case (1 loop fetch url ids r)
  then show ?case
    by (auto split: option.splits if_splits)
qed

lemma fetchSpecialGuestsFromSet_loop_Error:
  "fetchSpecialGuestsFromSet_loop fetch url allCards = Some r \<Longrightarrow> r = Inl (Error msg) \<Longrightarrow>
     \<exists>u response. fetch u = Some response \<and> \<not> ok response \<and> status response \<noteq> 404"
proof (induction arbitrary: msg rule: fetchSpecialGuestsFromSet_loop.raw_induct [rotated 1, consumes 1])
  case (1 loop fetch url allCards r)
  then show ?case
    by (auto split: option.splits if_splits)
qed

lemma fetchInstantsFromSet_mark_Error:
  assumes "fetchInstantsFromSet_mark fetch setCode allCards = Some (Inl (Error msg))"
  shows "\<exists>u response. fetch u = Some response \<and> \<not> ok response \<and> status response \<noteq> 404"
  using assms
  unfolding fetchInstantsFromSet_mark_def fetchSpecialGuestsFromSet_def fetchCounterspellIds_def
    fetchSpecialGuestsCounterspellIds_def Let_def
  by (auto split: option.splits sum.splits
      dest: fetchSpecialGuestsFromSet_loop_Error fetchCounterspellIds_loop_Error
        fetchSpecialGuestsCounterspellIds_loop_Error)

lemma fetchInstantsFromSet_loop_Error:
  "fetchInstantsFromSet_loop fetch setCode url allCards = Some r \<Longrightarrow> r = Inl (Error msg) \<Longrightarrow>
     \<exists>u response. fetch u = Some response \<and> \<not> ok response \<and> status response \<noteq> 404"
proof (induction arbitrary: msg rule: fetchInstantsFromSet_loop.raw_induct [rotated 1, consumes 1])
  case (1 loop fetch setCode url allCards r)
  then show ?case
    by (auto split: option.splits if_splits dest: fetchInstantsFromSet_mark_Error)
qed

text \<open>
  C6. When the first page of the main card search is answered with not-found (a
  non-success response of status 404), \<open>fetchInstantsFromSet\<close> returns the empty
  sequence and raises no error. Not-found is never surfaced as a failure: when every
  non-success response of the service is a not-found, none of the four search queries
  throws its error.
\<close>

theorem fetchInstantsFromSet_not_found:
  "(fetch (''https://api.scryfall.com/cards/search?q=''
           @ encodeURIComponent (''set:'' @ setCode @ '' (type:instant OR keyword:flash)'')
           @ ''&order=cmc'') = Some response
      \<and> \<not> ok response \<and> status response = 404
     \<longrightarrow> fetchInstantsFromSet fetch setCode = Some (Inr []))
   \<and> ((\<forall>u response. fetch u = Some response \<and> \<not> ok response \<longrightarrow> status response = 404)
     \<longrightarrow> fetchInstantsFromSet fetch setCode \<noteq> Some (Inl (Error msg))
       \<and> fetchSpecialGuestsFromSet fetch setCode \<noteq> Some (Inl (Error msg))
       \<and> fetchCounterspellIds fetch setCode \<noteq> Some (Inl (Error msg))
       \<and> fetchSpecialGuestsCounterspellIds fetch setCode \<noteq> Some (Inl (Error msg)))"
proof (intro conjI impI)
  assume "fetch (''https://api.scryfall.com/cards/search?q=''
           @ encodeURIComponent (''set:'' @ setCode @ '' (type:instant OR keyword:flash)'')
           @ ''&order=cmc'') = Some response
      \<and> \<not> ok response \<and> status response = 404"
  then show "fetchInstantsFromSet fetch setCode = Some (Inr [])"
    unfolding fetchInstantsFromSet_def Let_def
    by (subst fetchInstantsFromSet_loop.simps) simp
next
  assume a: "\<forall>u response. fetch u = Some response \<and> \<not> ok response \<longrightarrow> status response = 404"
  show "fetchInstantsFromSet fetch setCode \<noteq> Some (Inl (Error msg))"
    using a fetchInstantsFromSet_loop_Error [of fetch setCode _ "[]" _ msg]
    unfolding fetchInstantsFromSet_def Let_def by blast
  show "fetchSpecialGuestsFromSet fetch setCode \<noteq> Some (Inl (Error msg))"
    using a fetchSpecialGuestsFromSet_loop_Error [of fetch _ "[]" _ msg]
    unfolding fetchSpecialGuestsFromSet_def Let_def by blast
  show "fetchCounterspellIds fetch setCode \<noteq> Some (Inl (Error msg))"
    using a fetchCounterspellIds_loop_Error [of fetch _ "{}" _ msg]
    unfolding fetchCounterspellIds_def Let_def by blast
  show "fetchSpecialGuestsCounterspellIds fetch setCode \<noteq> Some (Inl (Error msg))"
    using a fetchSpecialGuestsCounterspellIds_loop_Error [of fetch _ "{}" _ msg]
    unfolding fetchSpecialGuestsCounterspellIds_def Let_def by blast
qed

theorem fetchInstantsFromSet_not_found_witness:
  "(\<lambda>u. Some notFound)
      (''https://api.scryfall.com/cards/search?q=''
       @ encodeURIComponent (''set:'' @ ''neo'' @ '' (type:instant OR keyword:flash)'')
       @ ''&order=cmc'') = Some notFound
   \<and> \<not> ok notFound \<and> status notFound = 404
   \<and> fetchInstantsFromSet (\<lambda>u. Some notFound) ''neo'' = Some (Inr [])
   \<and> fetchInstantsFromSet (\<lambda>u. Some notFound) ''neo'' \<noteq> Some (Inl (Error ''Failed to fetch cards''))
   \<and> fetchSpecialGuestsFromSet (\<lambda>u. Some notFound) ''neo''
        \<noteq> Some (Inl (Error ''Failed to fetch Special Guests cards''))
   \<and> fetchCounterspellIds (\<lambda>u. Some notFound) ''neo''
        \<noteq> Some (Inl (Error ''Failed to fetch counterspells''))"
proof -
  have h: "\<not> ok notFound \<and> status notFound = 404"
    by (simp add: notFound_def)
  have a: "\<forall>u response. (\<lambda>u. Some notFound) u = Some response \<and> \<not> ok response
             \<longrightarrow> status response = 404"
    using h by auto
  show ?thesis
    using h a
      fetchInstantsFromSet_not_found [of "\<lambda>u. Some notFound" "''neo''" notFound
        "''Failed to fetch cards''"]
      fetchInstantsFromSet_not_found [of "\<lambda>u. Some notFound" "''neo''" notFound
        "''Failed to fetch Special Guests cards''"]
      fetchInstantsFromSet_not_found [of "\<lambda>u. Some notFound" "''neo''" notFound
        "''Failed to fetch counterspells''"]
    by blast
qed

text \<open>
  C4, as amended. The claim as written (a 404 on a page after the first is thrown as an
  error, only a 404 on page one gives the empty collection) fails: the test of the status
  stands inside the loop and does not look at the page. What holds: on every page, the
  first or a later one, a non-success response of status 404 ends the query without an
  error (the two card queries return the empty sequence, the two id queries return the
  ids gathered so far), and a non-success response of any other status is thrown as the
  error that names the failing operation.
\<close>

theorem non_success_handling:
  assumes "u \<noteq> []" and "fetch u = Some response" and "\<not> ok response"
  shows "fetchInstantsFromSet_loop fetch setCode (Some u) allCards =
           Some (if status response = 404 then Inr [] else Inl (Error ''Failed to fetch cards''))
       \<and> fetchSpecialGuestsFromSet_loop fetch (Some u) allCards =
           Some (if status response = 404 then Inr []
                 else Inl (Error ''Failed to fetch Special Guests cards''))
       \<and> fetchCounterspellIds_loop fetch (Some u) ids =
           Some (if status response = 404 then Inr ids
                 else Inl (Error ''Failed to fetch counterspells''))
       \<and> fetchSpecialGuestsCounterspellIds_loop fetch (Some u) ids =
           Some (if status response = 404 then Inr ids
                 else Inl (Error ''Failed to fetch Special Guests counterspells''))"
proof -
  have 1: "fetchInstantsFromSet_loop fetch setCode (Some u) allCards =
      Some (if status response = 404 then Inr [] else Inl (Error ''Failed to fetch cards''))"
    using assms by (subst fetchInstantsFromSet_loop.simps) simp
  have 2: "fetchSpecialGuestsFromSet_loop fetch (Some u) allCards =
      Some (if status response = 404 then Inr []
            else Inl (Error ''Failed to fetch Special Guests cards''))"
    using assms by (subst fetchSpecialGuestsFromSet_loop.simps) simp
  have 3: "fetchCounterspellIds_loop fetch (Some u) ids =
      Some (if status response = 404 then Inr ids
            else Inl (Error ''Failed to fetch counterspells''))"
    using assms by (subst fetchCounterspellIds_loop.simps) simp
  have 4: "fetchSpecialGuestsCounterspellIds_loop fetch (Some u) ids =
      Some (if status response = 404 then Inr ids
            else Inl (Error ''Failed to fetch Special Guests counterspells''))"
    using assms by (subst fetchSpecialGuestsCounterspellIds_loop.simps) simp
  from 1 2 3 4 show ?thesis by blast
qed

theorem non_success_handling_witness:
  "''https://api.scryfall.com/cards/search?page=2'' \<noteq> []
   \<and> exampleFetchLate404 ''https://api.scryfall.com/cards/search?page=2'' = Some notFound
   \<and> \<not> ok notFound \<and> status notFound = 404
   \<and> fetchInstantsFromSet_loop exampleFetchLate404 ''neo''
        (Some ''https://api.scryfall.com/cards/search?page=2'') [cardA, cardB] = Some (Inr [])
   \<and> fetchCounterspellIds_loop exampleFetchLate404
        (Some ''https://api.scryfall.com/cards/search?page=2'') {''id-b''} = Some (Inr {''id-b''})
   \<and> (\<lambda>u. Some serverError) ''https://api.scryfall.com/cards/search?page=2'' = Some serverError
   \<and> \<not> ok serverError \<and> status serverError = 500
   \<and> fetchInstantsFromSet_loop (\<lambda>u. Some serverError) ''neo''
        (Some ''https://api.scryfall.com/cards/search?page=2'') [cardA, cardB]
        = Some (Inl (Error ''Failed to fetch cards''))
   \<and> fetchCounterspellIds_loop (\<lambda>u. Some serverError)
        (Some ''https://api.scryfall.com/cards/search?page=2'') {''id-b''}
        = Some (Inl (Error ''Failed to fetch counterspells''))"
proof -
  have n: "''https://api.scryfall.com/cards/search?page=2'' \<noteq> []" by simp
  have f: "exampleFetchLate404 ''https://api.scryfall.com/cards/search?page=2'' = Some notFound"
    by (simp add: exampleFetchLate404_def)
  have k: "\<not> ok notFound" "status notFound = 404" by (simp_all add: notFound_def)
  have g: "(\<lambda>u. Some serverError) ''https://api.scryfall.com/cards/search?page=2'' = Some serverError"
    by simp
  have e: "\<not> ok serverError" "status serverError = 500" by (simp_all add: serverError_def)
  show ?thesis
    using n f k g e
      non_success_handling [where fetch = exampleFetchLate404 and setCode = "''neo''"
        and allCards = "[cardA, cardB]" and ids = "{''id-b''}", OF n f k(1)]
      non_success_handling [where fetch = "\<lambda>u. Some serverError" and setCode = "''neo''"
        and allCards = "[cardA, cardB]" and ids = "{''id-b''}", OF n g e(1)]
    by simp
qed

text \<open>A service that answers the second page with not-found: the call returns the empty
  sequence, and the counterspell query returns the ids of its first page.\<close>

theorem non_success_handling_counterexample:
  "fetchInstantsFromSet exampleFetchLate404 ''neo'' = Some (Inr [])
   \<and> fetchCounterspellIds exampleFetchLate404 ''neo'' = Some (Inr {''id-b''})"
  by (simp add: fetchInstantsFromSet_def fetchCounterspellIds_def url_simps
      fetchInstantsFromSet_loop.simps fetchCounterspellIds_loop.simps
      exampleFetchLate404_def cardsPage_def notFound_def cardB_def exampleCard_def)

subsection \<open>The counterspell flag\<close>

lemma fetchSpecialGuestsFromSet_loop_served:
  "fetchSpecialGuestsFromSet_loop fetch url allCards = Some r \<Longrightarrow> r = Inr cards \<Longrightarrow>
   \<forall>c\<in>set allCards. \<exists>u response page.
      fetch u = Some response \<and> ok response \<and> json response = Some page \<and> c \<in> set (data page) \<Longrightarrow>
   \<forall>c\<in>set cards. \<exists>u response page.
      fetch u = Some response \<and> ok response \<and> json response = Some page \<and> c \<in> set (data page)"
proof (induction arbitrary: cards
    rule: fetchSpecialGuestsFromSet_loop.raw_induct [rotated 1, consumes 1])
  case (1 loop fetch url allCards r)
  show ?case
  proof (cases "\<exists>u. url = Some u \<and> u \<noteq> []")
    case False
    with 1 show ?thesis by (auto split: option.splits if_splits)
  next
    case True
    then obtain u where u: "url = Some u" "u \<noteq> []" by blast
    show ?thesis
    proof (cases "\<exists>response page. fetch u = Some response \<and> ok response \<and> json response = Some page")
      case False
      with 1(2,3) u show ?thesis by (auto split: option.splits if_splits)
    next
      case True
      then obtain response page where p: "fetch u = Some response" "ok response"
        "json response = Some page" by blast
      from 1(2) u p have call: "loop fetch (if has_more page then next_page page else None)
          (allCards @ data page) = Some r"
        by simp
      have inv: "\<forall>c\<in>set (allCards @ data page). \<exists>u response page.
          fetch u = Some response \<and> ok response \<and> json response = Some page \<and> c \<in> set (data page)"
        using 1(4) p by auto
      from 1(1) [OF call 1(3) inv] show ?thesis .
    qed
  qed
qed

lemma fetchInstantsFromSet_loop_result:
  "fetchInstantsFromSet_loop fetch setCode url allCards = Some r \<Longrightarrow> r = Inr cards \<Longrightarrow>
   \<forall>c\<in>set allCards. \<exists>u response page.
      fetch u = Some response \<and> ok response \<and> json response = Some page \<and> c \<in> set (data page) \<Longrightarrow>
   cards = [] \<or>
   (\<exists>mainCards. fetchInstantsFromSet_mark fetch setCode mainCards = Some (Inr cards)
      \<and> (\<forall>c\<in>set mainCards. \<exists>u response page.
           fetch u = Some response \<and> ok response \<and> json response = Some page \<and> c \<in> set (data page)))"
proof (induction arbitrary: cards
    rule: fetchInstantsFromSet_loop.raw_induct [rotated 1, consumes 1])
  case (1 loop fetch setCode url allCards r)
  show ?case
  proof (cases "\<exists>u. url = Some u \<and> u \<noteq> []")
    case False
    with 1(2,3) have "fetchInstantsFromSet_mark fetch setCode allCards = Some (Inr cards)"
      by (auto split: option.splits if_splits)
    with 1(4) show ?thesis by blast
  next
    case True
    then obtain u where u: "url = Some u" "u \<noteq> []" by blast
    show ?thesis
    proof (cases "\<exists>response page. fetch u = Some response \<and> ok response \<and> json response = Some page")
      case False
      with 1(2,3) u show ?thesis by (auto split: option.splits if_splits)
    next
      case True
      then obtain response page where p: "fetch u = Some response" "ok response"
        "json response = Some page" by blast
      from 1(2) u p have call: "loop fetch setCode (if has_more page then next_page page else None)
          (allCards @ data page) = Some r"
        by simp
      have inv: "\<forall>c\<in>set (allCards @ data page). \<exists>u response page.
          fetch u = Some response \<and> ok response \<and> json response = Some page \<and> c \<in> set (data page)"
        using 1(4) p by auto
      from 1(1) [OF call 1(3) inv] show ?thesis .
    qed
  qed
qed

text \<open>
  C5. Every card in the sequence that \<open>fetchInstantsFromSet\<close> returns is a card that
  the service delivered, with the one field \<open>isCounterspell\<close> set; the flag is true
  exactly when the card's id is in the union of the id sets that the two counterspell
  queries (main set and special guests) produce. The sequence is empty when the call
  returns before these queries are made.
\<close>

theorem fetchInstantsFromSet_isCounterspell:
  assumes "fetchInstantsFromSet fetch setCode = Some (Inr cards)"
  shows "cards = [] \<or>
     (\<exists>fetched counterspellIds spgCounterspellIds.
        fetchCounterspellIds fetch setCode = Some (Inr counterspellIds)
      \<and> fetchSpecialGuestsCounterspellIds fetch setCode = Some (Inr spgCounterspellIds)
      \<and> cards = map (\<lambda>c. c\<lparr>isCounterspell :=
                              Some (id' c \<in> counterspellIds \<union> spgCounterspellIds)\<rparr>) fetched
      \<and> (\<forall>c\<in>set cards.
            isCounterspell c = Some (id' c \<in> counterspellIds \<union> spgCounterspellIds))
      \<and> (\<forall>c\<in>set fetched. \<exists>u response page.
            fetch u = Some response \<and> ok response \<and> json response = Some page
            \<and> c \<in> set (data page)))"
proof (cases "cards = []")
  case True
  then show ?thesis by simp
next
  case False
  from assms have "fetchInstantsFromSet_loop fetch setCode
      (Some (''https://api.scryfall.com/cards/search?q=''
             @ encodeURIComponent (''set:'' @ setCode @ '' (type:instant OR keyword:flash)'')
             @ ''&order=cmc'')) [] = Some (Inr cards)"
    by (simp add: fetchInstantsFromSet_def)
  from fetchInstantsFromSet_loop_result [OF this refl] False
  obtain mainCards where m: "fetchInstantsFromSet_mark fetch setCode mainCards = Some (Inr cards)"
    and ms: "\<forall>c\<in>set mainCards. \<exists>u response page.
        fetch u = Some response \<and> ok response \<and> json response = Some page \<and> c \<in> set (data page)"
    by auto
  from m obtain spgCards counterspellIds spgCounterspellIds
    where s: "fetchSpecialGuestsFromSet fetch setCode = Some (Inr spgCards)"
      and i: "fetchCounterspellIds fetch setCode = Some (Inr counterspellIds)"
      and j: "fetchSpecialGuestsCounterspellIds fetch setCode = Some (Inr spgCounterspellIds)"
      and c: "cards = map (\<lambda>c. c\<lparr>isCounterspell :=
                              Some (id' c \<in> counterspellIds \<union> spgCounterspellIds)\<rparr>)
                        (mainCards @ spgCards)"
    by (auto simp: fetchInstantsFromSet_mark_def split: option.splits sum.splits)
  from s have "fetchSpecialGuestsFromSet_loop fetch
      (Some (''https://api.scryfall.com/cards/search?q=''
             @ encodeURIComponent (''set:spg date:'' @ setCode @ '' (type:instant OR keyword:flash)'')
             @ ''&order=cmc'')) [] = Some (Inr spgCards)"
    by (simp add: fetchSpecialGuestsFromSet_def)
  from fetchSpecialGuestsFromSet_loop_served [OF this refl]
  have ss: "\<forall>c\<in>set spgCards. \<exists>u response page.
        fetch u = Some response \<and> ok response \<and> json response = Some page \<and> c \<in> set (data page)"
    by simp
  from ms ss have all: "\<forall>c\<in>set (mainCards @ spgCards). \<exists>u response page.
        fetch u = Some response \<and> ok response \<and> json response = Some page \<and> c \<in> set (data page)"
    by auto
  from c have flags: "\<forall>c\<in>set cards.
      isCounterspell c = Some (id' c \<in> counterspellIds \<union> spgCounterspellIds)"
    by auto
  from i j c flags all show ?thesis by blast
qed

lemma exampleFetch_result: "fetchInstantsFromSet exampleFetch ''neo'' =
   Some (Inr [cardA\<lparr>isCounterspell := Some False\<rparr>, cardB\<lparr>isCounterspell := Some True\<rparr>,
              cardC\<lparr>isCounterspell := Some False\<rparr>])"
  by (simp add: fetchInstantsFromSet_def url_simps fetchInstantsFromSet_loop.simps
      fetchInstantsFromSet_mark_def fetchSpecialGuestsFromSet_def fetchSpecialGuestsFromSet_loop.simps
      fetchCounterspellIds_def fetchCounterspellIds_loop.simps
      fetchSpecialGuestsCounterspellIds_def fetchSpecialGuestsCounterspellIds_loop.simps
      exampleFetch_def cardsPage_def notFound_def cardA_def cardB_def cardC_def exampleCard_def)

lemma exampleFetch_ids:
  "fetchCounterspellIds exampleFetch ''neo'' = Some (Inr {''id-b''})"
  "fetchSpecialGuestsCounterspellIds exampleFetch ''neo'' = Some (Inr {})"
  by (simp_all add: fetchCounterspellIds_def fetchSpecialGuestsCounterspellIds_def url_simps
      fetchCounterspellIds_loop.simps fetchSpecialGuestsCounterspellIds_loop.simps
      exampleFetch_def cardsPage_def notFound_def cardB_def exampleCard_def)

theorem fetchInstantsFromSet_isCounterspell_witness:
  "fetchInstantsFromSet exampleFetch ''neo'' =
     Some (Inr [cardA\<lparr>isCounterspell := Some False\<rparr>, cardB\<lparr>isCounterspell := Some True\<rparr>,
                cardC\<lparr>isCounterspell := Some False\<rparr>])
   \<and> fetchCounterspellIds exampleFetch ''neo'' = Some (Inr {''id-b''})
   \<and> fetchSpecialGuestsCounterspellIds exampleFetch ''neo'' = Some (Inr {})
   \<and> (\<exists>fetched.
        [cardA\<lparr>isCounterspell := Some False\<rparr>, cardB\<lparr>isCounterspell := Some True\<rparr>,
         cardC\<lparr>isCounterspell := Some False\<rparr>]
        = map (\<lambda>c. c\<lparr>isCounterspell := Some (id' c \<in> {''id-b''} \<union> {})\<rparr>) fetched)"
proof -
  let ?cards = "[cardA\<lparr>isCounterspell := Some False\<rparr>, cardB\<lparr>isCounterspell := Some True\<rparr>,
                 cardC\<lparr>isCounterspell := Some False\<rparr>]"
  note r = exampleFetch_result
  from fetchInstantsFromSet_isCounterspell [where fetch = exampleFetch, OF r]
  have "\<exists>fetched counterspellIds spgCounterspellIds.
          fetchCounterspellIds exampleFetch ''neo'' = Some (Inr counterspellIds)
        \<and> fetchSpecialGuestsCounterspellIds exampleFetch ''neo'' = Some (Inr spgCounterspellIds)
        \<and> ?cards = map (\<lambda>c. c\<lparr>isCounterspell :=
                               Some (id' c \<in> counterspellIds \<union> spgCounterspellIds)\<rparr>) fetched"
  proof
    assume "?cards = []"
    then show ?thesis by simp
  next
    assume "\<exists>fetched counterspellIds spgCounterspellIds.
        fetchCounterspellIds exampleFetch ''neo'' = Some (Inr counterspellIds)
      \<and> fetchSpecialGuestsCounterspellIds exampleFetch ''neo'' = Some (Inr spgCounterspellIds)
      \<and> ?cards = map (\<lambda>c. c\<lparr>isCounterspell :=
                              Some (id' c \<in> counterspellIds \<union> spgCounterspellIds)\<rparr>) fetched
      \<and> (\<forall>c\<in>set ?cards.
            isCounterspell c = Some (id' c \<in> counterspellIds \<union> spgCounterspellIds))
      \<and> (\<forall>c\<in>set fetched. \<exists>u response page.
            exampleFetch u = Some response \<and> ok response \<and> json response = Some page
            \<and> c \<in> set (data page))"
    then show ?thesis by (elim exE conjE) (intro exI conjI)
  qed
  then obtain fetched counterspellIds spgCounterspellIds where
    i: "fetchCounterspellIds exampleFetch ''neo'' = Some (Inr counterspellIds)"
    and j: "fetchSpecialGuestsCounterspellIds exampleFetch ''neo'' = Some (Inr spgCounterspellIds)"
    and c: "?cards = map (\<lambda>c. c\<lparr>isCounterspell :=
                      Some (id' c \<in> counterspellIds \<union> spgCounterspellIds)\<rparr>) fetched"
    by (elim exE conjE)
  from i j have "counterspellIds = {''id-b''}" "spgCounterspellIds = {}"
    by (simp_all add: exampleFetch_ids)
  with c have "\<exists>fetched. ?cards
      = map (\<lambda>c. c\<lparr>isCounterspell := Some (id' c \<in> {''id-b''} \<union> {})\<rparr>) fetched"
    by (intro exI [of _ fetched]) simp
  with r exampleFetch_ids show ?thesis by (intro conjI)
qed

end
